theory Spec2Isabelle
  imports Main "HOL-Library.Multiset" "HOL-Library.AList"
begin

section \<open>Book scraper (scraper.py)\<close>

text \<open>
  A shallow embedding of \<^verbatim>\<open>scraper.py\<close>. The external collaborators are
  represented by what the program observes of them:
  \<^item> the network is a function from an address to the outcome of \<^verbatim>\<open>session.get\<close>
    (a \<^verbatim>\<open>requests.RequestException\<close>, or a response); the session records every
    address it was asked for;
  \<^item> the text of a response is represented by the document that
    \<^verbatim>\<open>BeautifulSoup(response.text, 'html.parser')\<close> builds from it, and the
    document by the answers to the queries the program asks of it;
  \<^item> \<^verbatim>\<open>urljoin\<close> and \<^verbatim>\<open>json.dump\<close> are parameters;
  \<^item> the worker pool is represented by the order in which
    \<^verbatim>\<open>as_completed\<close> hands the futures back, an arbitrary permutation.
  Progress lines printed during the crawl are not part of the model; the lines
  printed by \<^verbatim>\<open>save_books_data\<close> are.
\<close>

subsection \<open>Values, dictionaries, strings\<close>

text \<open>\<^verbatim>\<open>BookData = Dict[str, Union[str, int, None]]\<close>: a dictionary in insertion
  order, an association list with distinct keys.\<close>

datatype pyval = PyStr string | PyInt int | PyNone

type_synonym BookData = "(string \<times> pyval) list"
type_synonym BookList = "BookData list"

text \<open>\<^verbatim>\<open>d[k] = v\<close>: an existing key keeps its position and takes the new value, a new
  key goes to the end.\<close>

definition dict_set :: "('k \<times> 'v) list \<Rightarrow> 'k \<Rightarrow> 'v \<Rightarrow> ('k \<times> 'v) list" where
  "dict_set d k v = AList.update k v d"

text \<open>\<^verbatim>\<open>{**d, **e}\<close>: the entries of \<open>e\<close> are stored into \<open>d\<close> one after the other.\<close>

fun dict_merge :: "('k \<times> 'v) list \<Rightarrow> ('k \<times> 'v) list \<Rightarrow> ('k \<times> 'v) list" where
  "dict_merge d [] = d"
| "dict_merge d ((k, v) # e) = dict_merge (dict_set d k v) e"

definition dict_get :: "('k \<times> 'v) list \<Rightarrow> 'k \<Rightarrow> 'v option" where
  "dict_get d k = map_of d k"

text \<open>\<^verbatim>\<open>str.strip()\<close>: the characters below U+0100 for which
  \<^verbatim>\<open>str.isspace\<close> holds.\<close>

definition isspace :: "char \<Rightarrow> bool" where
  "isspace c = (c \<in> set [CHR '' '', CHR 0x09, CHR 0x0A, CHR 0x0B, CHR 0x0C, CHR 0x0D,
                           CHR 0x1C, CHR 0x1D, CHR 0x1E, CHR 0x1F, CHR 0x85, CHR 0xA0])"

definition strip :: "string \<Rightarrow> string" where
  "strip s = rev (dropWhile isspace (rev (dropWhile isspace s)))"

subsection \<open>Documents\<close>

text \<open>An attribute of a tag is a string, or a list of strings for a multi-valued
  attribute such as \<^verbatim>\<open>class\<close>.\<close>

datatype attr_value = AttrStr string | AttrList "string list"

record tag =
  tag_attrs :: "string \<rightharpoonup> attr_value"
  tag_text :: string

record tr_tag =
  find_th :: "tag option"
  find_td :: "tag option"

text \<open>The answers of one document to the queries of the program: each field is named
  after the query. \<open>find_div_product_description\<close> is \<open>None\<close> when the header is
  absent and otherwise holds the answer of \<^verbatim>\<open>find_next_sibling('p')\<close>;
  \<open>find_table_striped\<close> holds the answer of \<^verbatim>\<open>find_all('tr')\<close>.\<close>

record soup =
  find_h1 :: "tag option"
  find_p_price_color :: "tag option"
  find_p_star_rating :: "tag option"
  find_p_instock_availability :: "tag option"
  find_div_product_description :: "tag option option"
  find_table_striped :: "tr_tag list option"
  select_product_links :: "tag list"

subsection \<open>The network session\<close>

datatype request_exception = ConnectionError | Timeout | HTTPError nat

record response =
  status_code :: nat
  document :: soup

record session =
  http :: "string \<Rightarrow> request_exception + response"
  requested :: "string list"

text \<open>\<^verbatim>\<open>session.get(url, timeout=DEFAULT_TIMEOUT)\<close>: the outcome, and the session with
  the address recorded.\<close>

definition session_get ::
  "session \<Rightarrow> string \<Rightarrow> (request_exception + response) \<times> session" where
  "session_get s url = (http s url, s\<lparr>requested := requested s @ [url]\<rparr>)"

text \<open>\<^verbatim>\<open>response.raise_for_status()\<close> raises \<^verbatim>\<open>HTTPError\<close> on a client or server
  error status, 400 to 599, and on no other status.\<close>

definition raise_for_status :: "response \<Rightarrow> request_exception + unit" where
  "raise_for_status r =
     (if 400 \<le> status_code r \<and> status_code r < 600
      then Inl (HTTPError (status_code r)) else Inr ())"

subsection \<open>Constants\<close>

definition BASE_URL :: string where
  "BASE_URL = ''https://books.toscrape.com''"

definition RATING_MAP :: "(string \<times> int) list" where
  "RATING_MAP = [(''One'', 1), (''Two'', 2), (''Three'', 3), (''Four'', 4), (''Five'', 5)]"

text \<open>\<^verbatim>\<open>RATING_MAP.get(key, default)\<close>\<close>

definition RATING_MAP_get :: "string \<Rightarrow> int \<Rightarrow> int" where
  "RATING_MAP_get k d = (case map_of RATING_MAP k of Some v \<Rightarrow> v | None \<Rightarrow> d)"

subsection \<open>get_book_data\<close>

text \<open>\<^verbatim>\<open>element.text.strip() if element else None\<close>\<close>

definition text_or_none :: "tag option \<Rightarrow> pyval" where
  "text_or_none element =
     (case element of Some e \<Rightarrow> PyStr (strip (tag_text e)) | None \<Rightarrow> PyNone)"

text \<open>Lines 61 to 66: the rating starts at 0 and is replaced only when the star-rating
  element has a \<^verbatim>\<open>class\<close> attribute that is a list with more than one entry.\<close>

definition extract_rating :: "soup \<Rightarrow> int" where
  "extract_rating sp =
     (case find_p_star_rating sp of
        None \<Rightarrow> 0
      | Some rating_element \<Rightarrow>
          (case tag_attrs rating_element ''class'' of
             None \<Rightarrow> 0
           | Some (AttrStr _) \<Rightarrow> 0
           | Some (AttrList rating_classes) \<Rightarrow>
               if length rating_classes > 1
               then RATING_MAP_get (rating_classes ! 1) 0 else 0))"

text \<open>Lines 73 to 78.\<close>

definition extract_description :: "soup \<Rightarrow> pyval" where
  "extract_description sp =
     (case find_div_product_description sp of
        None \<Rightarrow> PyNone
      | Some description_element \<Rightarrow> text_or_none description_element)"

text \<open>Lines 85 to 91: the loop over the rows, storing into \<open>info\<close>.\<close>

fun info_rows :: "(string \<times> string) list \<Rightarrow> tr_tag list \<Rightarrow> (string \<times> string) list" where
  "info_rows info [] = info"
| "info_rows info (row # rows) =
     (case (find_th row, find_td row) of
        (Some th_element, Some td_element) \<Rightarrow>
          info_rows (dict_set info (strip (tag_text th_element))
                       (strip (tag_text td_element))) rows
      | _ \<Rightarrow> info_rows info rows)"

text \<open>Lines 81 to 91.\<close>

definition extract_info :: "soup \<Rightarrow> (string \<times> string) list" where
  "extract_info sp =
     (case find_table_striped sp of None \<Rightarrow> [] | Some rows \<Rightarrow> info_rows [] rows)"

text \<open>Lines 93 to 101: the dictionary display, the fixed fields in order and then
  \<^verbatim>\<open>**info\<close>.\<close>

definition book_record :: "soup \<Rightarrow> string \<Rightarrow> BookData" where
  "book_record sp book_url =
     dict_merge
       [(''title'', text_or_none (find_h1 sp)),
        (''price'', text_or_none (find_p_price_color sp)),
        (''rating'', PyInt (extract_rating sp)),
        (''stock'', text_or_none (find_p_instock_availability sp)),
        (''description'', extract_description sp),
        (''url'', PyStr book_url)]
       (map (\<lambda>(info_key, info_value). (info_key, PyStr info_value)) (extract_info sp))"

definition get_book_data :: "session \<Rightarrow> string \<Rightarrow> BookData \<times> session" where
  "get_book_data s book_url =
     (case session_get s book_url of
        (Inl exc, s') \<Rightarrow> ([], s')
      | (Inr response, s') \<Rightarrow>
          (case raise_for_status response of
             Inl exc \<Rightarrow> ([], s')
           | Inr _ \<Rightarrow> (book_record (document response) book_url, s')))"

subsection \<open>The catalogue walk\<close>

text \<open>\<^verbatim>\<open>str(n)\<close> for an integer, in decimal.\<close>

fun str_nat :: "nat \<Rightarrow> string" where
  "str_nat n =
     (if n < 10 then [''0123456789'' ! n]
      else str_nat (n div 10) @ [''0123456789'' ! (n mod 10)])"

declare str_nat.simps [simp del]

definition str_int :: "int \<Rightarrow> string" where
  "str_int i = (if i < 0 then CHR ''-'' # str_nat (nat (- i)) else str_nat (nat i))"

text \<open>\<^verbatim>\<open>CATALOGUE_URL_TEMPLATE.format(page)\<close>\<close>

definition CATALOGUE_URL :: "int \<Rightarrow> string" where
  "CATALOGUE_URL page =
     ''https://books.toscrape.com/catalogue/page-'' @ str_int page @ ''.html''"

text \<open>\<^verbatim>\<open>max_pages and page > max_pages\<close>: \<^verbatim>\<open>None\<close> and \<^verbatim>\<open>0\<close> are falsy, every
  other integer is truthy.\<close>

definition cap_reached :: "int option \<Rightarrow> int \<Rightarrow> bool" where
  "cap_reached max_pages page =
     (case max_pages of None \<Rightarrow> False | Some m \<Rightarrow> m \<noteq> 0 \<and> page > m)"

text \<open>Lines 164 to 169: only a link whose \<^verbatim>\<open>href\<close> is a string adds an address.\<close>

fun append_links ::
  "(string \<Rightarrow> string \<Rightarrow> string) \<Rightarrow> string \<Rightarrow> string list \<Rightarrow> tag list \<Rightarrow> string list" where
  "append_links urljoin page_url all_book_urls [] = all_book_urls"
| "append_links urljoin page_url all_book_urls (link # book_links) =
     (case tag_attrs link ''href'' of
        Some (AttrStr href_value) \<Rightarrow>
          append_links urljoin page_url
            (all_book_urls @ [urljoin page_url href_value]) book_links
      | _ \<Rightarrow> append_links urljoin page_url all_book_urls book_links)"

text \<open>Lines 144 to 176, the \<^verbatim>\<open>while True\<close> loop. It need not end: the result is
  \<open>None\<close> when it runs forever.\<close>

partial_function (option) collect_book_urls ::
  "(string \<Rightarrow> string \<Rightarrow> string) \<Rightarrow> int option \<Rightarrow> int \<Rightarrow> string list \<Rightarrow> session
     \<Rightarrow> (string list \<times> session) option" where
  "collect_book_urls urljoin max_pages page all_book_urls s =
     (if cap_reached max_pages page then Some (all_book_urls, s)
      else
        (case session_get s (CATALOGUE_URL page) of
           (Inl exc, s') \<Rightarrow> Some (all_book_urls, s')
         | (Inr response, s') \<Rightarrow>
             if status_code response \<noteq> 200 then Some (all_book_urls, s')
             else if select_product_links (document response) = []
             then Some (all_book_urls, s')
             else collect_book_urls urljoin max_pages (page + 1)
                    (append_links urljoin (CATALOGUE_URL page) all_book_urls
                       (select_product_links (document response))) s'))"

subsection \<open>The fetch dispatch\<close>

text \<open>What \<^verbatim>\<open>future.result()\<close> does: it returns the value of the task or raises the
  exception the task raised.\<close>

datatype 'a future_result = Returned 'a | Raised string

text \<open>Lines 190 to 193: one task per address; \<open>futures\<close> pairs each future with its
  address. The tasks' requests are recorded in the order of submission.\<close>

fun submit_all ::
  "session \<Rightarrow> string list \<Rightarrow> (BookData future_result \<times> string) list \<times> session" where
  "submit_all s [] = ([], s)"
| "submit_all s (url # all_book_urls) =
     (case get_book_data s url of
        (book_data, s') \<Rightarrow>
          (case submit_all s' all_book_urls of
             (futures, s'') \<Rightarrow> ((Returned book_data, url) # futures, s'')))"

text \<open>Lines 195 to 206: the loop over the completed futures.\<close>

fun collect_results ::
  "(BookData future_result \<times> string) list \<Rightarrow> BookList \<Rightarrow> nat \<Rightarrow> BookList \<times> nat" where
  "collect_results [] parsed_books failed_count = (parsed_books, failed_count)"
| "collect_results ((future, url) # completed) parsed_books failed_count =
     (case future of
        Returned book_data \<Rightarrow>
          if book_data \<noteq> []
          then collect_results completed (parsed_books @ [book_data]) failed_count
          else collect_results completed parsed_books (failed_count + 1)
      | Raised exc \<Rightarrow> collect_results completed parsed_books (failed_count + 1))"

subsection \<open>save_books_data\<close>

text \<open>The file system: the directories and the regular files with their contents.
  Whether a call of the operating system fails is not decided by the program; each of
  the three calls of \<^verbatim>\<open>save_books_data\<close> takes its fault, if any, from \<open>os_faults\<close>.
  A failing write leaves the first \<open>n\<close> characters in the file.\<close>

datatype os_error =
  PermissionError | FileExistsError | IsADirectoryError | FileNotFoundError | NoSpaceLeft

record os_faults =
  makedirs_fault :: "os_error option"
  open_fault :: "os_error option"
  write_fault :: "(os_error \<times> nat) option"

record filesystem =
  dirs :: "string set"
  files :: "string \<rightharpoonup> string"

datatype line = SavedTo nat string | SaveError os_error

text \<open>\<^verbatim>\<open>os.makedirs(name, exist_ok=True)\<close>\<close>

definition os_makedirs :: "os_faults \<Rightarrow> filesystem \<Rightarrow> string \<Rightarrow> os_error + filesystem" where
  "os_makedirs faults fs name =
     (case makedirs_fault faults of
        Some e \<Rightarrow> Inl e
      | None \<Rightarrow> Inr (fs\<lparr>dirs := insert name (dirs fs)\<rparr>))"

text \<open>\<^verbatim>\<open>os.path.join(a, b)\<close> of \<^verbatim>\<open>posixpath\<close>\<close>

definition os_path_join :: "string \<Rightarrow> string \<Rightarrow> string" where
  "os_path_join a b =
     (if b \<noteq> [] \<and> hd b = CHR ''/'' then b
      else if a = [] \<or> last a = CHR ''/'' then a @ b
      else a @ ''/'' @ b)"

text \<open>\<^verbatim>\<open>open(filepath, 'w', encoding='utf-8')\<close>: the file exists and is empty.\<close>

definition open_w :: "os_faults \<Rightarrow> filesystem \<Rightarrow> string \<Rightarrow> os_error + filesystem" where
  "open_w faults fs filepath =
     (case open_fault faults of
        Some e \<Rightarrow> Inl e
      | None \<Rightarrow> Inr (fs\<lparr>files := (files fs)(filepath \<mapsto> [])\<rparr>))"

text \<open>Writing the text and closing the file.\<close>

definition file_write ::
  "os_faults \<Rightarrow> filesystem \<Rightarrow> string \<Rightarrow> string \<Rightarrow> os_error option \<times> filesystem" where
  "file_write faults fs filepath content =
     (case write_fault faults of
        Some (e, n) \<Rightarrow> (Some e, fs\<lparr>files := (files fs)(filepath \<mapsto> take n content)\<rparr>)
      | None \<Rightarrow> (None, fs\<lparr>files := (files fs)(filepath \<mapsto> content)\<rparr>))"

text \<open>Lines 223 to 243. The result is the value returned to the caller, the file system
  and the lines printed. \<open>json_dumps\<close> is the text that
  \<^verbatim>\<open>json.dump(book_list, file, ensure_ascii=False, indent=4)\<close> writes.\<close>

definition save_books_data ::
  "(BookList \<Rightarrow> string) \<Rightarrow> os_faults \<Rightarrow> filesystem \<Rightarrow> BookList \<Rightarrow> string
     \<Rightarrow> pyval \<times> filesystem \<times> line list" where
  "save_books_data json_dumps faults fs book_list filename =
     (case os_makedirs faults fs ''artifacts'' of
        Inl exc \<Rightarrow> (PyNone, fs, [SaveError exc])
      | Inr fs1 \<Rightarrow>
          (let filepath = os_path_join ''artifacts'' filename in
           case open_w faults fs1 filepath of
             Inl exc \<Rightarrow> (PyNone, fs1, [SaveError exc])
           | Inr fs2 \<Rightarrow>
               (case file_write faults fs2 filepath (json_dumps book_list) of
                  (Some exc, fs3) \<Rightarrow> (PyNone, fs3, [SaveError exc])
                | (None, fs3) \<Rightarrow> (PyNone, fs3, [SavedTo (length book_list) filepath]))))"

subsection \<open>scrape_books\<close>

text \<open>The library functions the run depends on.\<close>

record library =
  urljoin :: "string \<Rightarrow> string \<Rightarrow> string"
  as_completed ::
    "(BookData future_result \<times> string) list \<Rightarrow> (BookData future_result \<times> string) list"
  json_dumps :: "BookList \<Rightarrow> string"

text \<open>Lines 131 to 138: the check of the site root.\<close>

definition site_available :: "session \<Rightarrow> bool \<times> session" where
  "site_available s =
     (case session_get s BASE_URL of
        (Inl exc, s') \<Rightarrow> (False, s')
      | (Inr response, s') \<Rightarrow>
          (case raise_for_status response of
             Inl exc \<Rightarrow> (False, s')
           | Inr _ \<Rightarrow> (True, s')))"

text \<open>Lines 109 to 220. The run opens a new session on the network \<open>net\<close>; the result
  is the list returned, the session at the end and the file system at the end, or
  \<open>None\<close> when the catalogue walk runs forever.\<close>

definition scrape_books ::
  "library \<Rightarrow> (string \<Rightarrow> request_exception + response) \<Rightarrow> os_faults \<Rightarrow> filesystem
     \<Rightarrow> bool \<Rightarrow> int option \<Rightarrow> (BookList \<times> session \<times> filesystem) option" where
  "scrape_books lib net faults fs is_save max_pages =
     (case site_available \<lparr>http = net, requested = []\<rparr> of
        (False, s1) \<Rightarrow> Some ([], s1, fs)
      | (True, s1) \<Rightarrow>
          (case collect_book_urls (urljoin lib) max_pages 1 [] s1 of
             None \<Rightarrow> None
           | Some (all_book_urls, s2) \<Rightarrow>
               if all_book_urls = [] then Some ([], s2, fs)
               else
                 (case submit_all s2 all_book_urls of
                    (futures, s3) \<Rightarrow>
                      (case collect_results (as_completed lib futures) [] 0 of
                         (parsed_books, failed_count) \<Rightarrow>
                           if is_save \<and> parsed_books \<noteq> []
                           then Some (parsed_books, s3,
                                  fst (snd (save_books_data (json_dumps lib) faults fs
                                              parsed_books ''books_data.txt'')))
                           else Some (parsed_books, s3, fs)))))"

section \<open>Notions of the specification\<close>

text \<open>The second class tag (index 1) of the star-rating element, \<open>None\<close> when it is
  missing: no such element, no \<^verbatim>\<open>class\<close> attribute, or fewer than two tags.\<close>

definition second_class :: "soup \<Rightarrow> string option" where
  "second_class sp =
     (case find_p_star_rating sp of
        None \<Rightarrow> None
      | Some rating_element \<Rightarrow>
          (case tag_attrs rating_element ''class'' of
             Some (AttrList rating_classes) \<Rightarrow>
               if length rating_classes > 1 then Some (rating_classes ! 1) else None
           | _ \<Rightarrow> None))"

text \<open>The vocabulary as the specification words it: the five words give 1 to 5, any
  other tag and a missing tag give 0.\<close>

definition vocabulary_rating :: "string option \<Rightarrow> int" where
  "vocabulary_rating c =
     (if c = Some ''One'' then 1 else if c = Some ''Two'' then 2
      else if c = Some ''Three'' then 3 else if c = Some ''Four'' then 4
      else if c = Some ''Five'' then 5 else 0)"

text \<open>A row of the specification table that has a header cell and a data cell, the
  header reading \<open>k\<close>.\<close>

definition row_labelled :: "string \<Rightarrow> tr_tag \<Rightarrow> bool" where
  "row_labelled k row =
     (case (find_th row, find_td row) of
        (Some th_element, Some td_element) \<Rightarrow> strip (tag_text th_element) = k
      | _ \<Rightarrow> False)"

text \<open>The rows of the specification table, none when the page has no such table.\<close>

definition table_rows :: "soup \<Rightarrow> tr_tag list" where
  "table_rows sp = (case find_table_striped sp of None \<Rightarrow> [] | Some rows \<Rightarrow> rows)"

text \<open>The non-empty record a future gives back, \<open>None\<close> when the task returned the empty
  dictionary or raised.\<close>

definition returned_record :: "BookData future_result \<times> string \<Rightarrow> BookData option" where
  "returned_record f =
     (case fst f of
        Returned book_data \<Rightarrow> if book_data \<noteq> [] then Some book_data else None
      | Raised exc \<Rightarrow> None)"

text \<open>A catalogue page that lets the walk go on: it answers with status 200 and has at
  least one link. \<open>page_links\<close> are its links.\<close>

definition page_continues :: "(string \<Rightarrow> request_exception + response) \<Rightarrow> int \<Rightarrow> bool" where
  "page_continues net page =
     (case net (CATALOGUE_URL page) of
        Inl exc \<Rightarrow> False
      | Inr response \<Rightarrow>
          status_code response = 200 \<and> select_product_links (document response) \<noteq> [])"

definition page_links :: "(string \<Rightarrow> request_exception + response) \<Rightarrow> int \<Rightarrow> tag list" where
  "page_links net page =
     (case net (CATALOGUE_URL page) of
        Inl exc \<Rightarrow> []
      | Inr response \<Rightarrow> select_product_links (document response))"

text \<open>The addresses collected from \<open>n\<close> consecutive pages starting at \<open>page\<close>, page after
  page, and the addresses of these pages.\<close>

fun walk_pages ::
  "(string \<Rightarrow> string \<Rightarrow> string) \<Rightarrow> (string \<Rightarrow> request_exception + response) \<Rightarrow> int \<Rightarrow> nat
     \<Rightarrow> string list \<Rightarrow> string list" where
  "walk_pages uj net page 0 acc = acc"
| "walk_pages uj net page (Suc n) acc =
     walk_pages uj net (page + 1) n
       (append_links uj (CATALOGUE_URL page) acc (page_links net page))"

fun page_urls :: "int \<Rightarrow> nat \<Rightarrow> string list" where
  "page_urls page 0 = []"
| "page_urls page (Suc n) = CATALOGUE_URL page # page_urls (page + 1) n"

text \<open>The first fault among the three calls of \<^verbatim>\<open>save_books_data\<close>.\<close>

definition first_fault :: "os_faults \<Rightarrow> os_error option" where
  "first_fault faults =
     (case makedirs_fault faults of
        Some e \<Rightarrow> Some e
      | None \<Rightarrow>
          (case open_fault faults of
             Some e \<Rightarrow> Some e
           | None \<Rightarrow> map_option fst (write_fault faults)))"

text \<open>The fetch of a detail page fails: \<^verbatim>\<open>session.get\<close> raises, or
  \<^verbatim>\<open>raise_for_status\<close> raises on the status.\<close>

definition fetch_failed :: "session \<Rightarrow> string \<Rightarrow> bool" where
  "fetch_failed s url =
     (case http s url of
        Inl exc \<Rightarrow> True
      | Inr response \<Rightarrow> 400 \<le> status_code response \<and> status_code response < 600)"

section \<open>Example inputs\<close>

text \<open>A document in which no query finds anything.\<close>

definition no_tags :: soup where
  "no_tags = \<lparr>find_h1 = None, find_p_price_color = None, find_p_star_rating = None,
     find_p_instock_availability = None, find_div_product_description = None,
     find_table_striped = None, select_product_links = []\<rparr>"

definition cell :: "string \<Rightarrow> tag" where
  "cell t = \<lparr>tag_attrs = Map.empty, tag_text = t\<rparr>"

definition spec_row :: "string \<Rightarrow> string \<Rightarrow> tr_tag" where
  "spec_row label v = \<lparr>find_th = Some (cell label), find_td = Some (cell v)\<rparr>"

text \<open>A network that answers the listed addresses and refuses every other connection.\<close>

definition net_of ::
  "(string \<times> (request_exception + response)) list \<Rightarrow> string \<Rightarrow> request_exception + response" where
  "net_of answers url =
     (case map_of answers url of Some r \<Rightarrow> r | None \<Rightarrow> Inl ConnectionError)"

definition session_on :: "(string \<Rightarrow> request_exception + response) \<Rightarrow> session" where
  "session_on net = \<lparr>http = net, requested = []\<rparr>"

definition book_url_1 :: string where
  "book_url_1 = ''https://books.toscrape.com/catalogue/a_1/index.html''"

text \<open>A detail page with a price of 51.77 and a specification table of the given rows.\<close>

definition page_with_rows :: "tr_tag list \<Rightarrow> response" where
  "page_with_rows rows =
     \<lparr>status_code = 200,
      document = no_tags\<lparr>find_p_price_color := Some (cell ''51.77''),
                         find_table_striped := Some rows\<rparr>\<rparr>"

text \<open>A detail page whose table has a row labelled \<open>price\<close>.\<close>

definition price_row_page :: response where
  "price_row_page = page_with_rows [spec_row ''UPC'' ''a897'', spec_row ''price'' '' 9.99 '']"

definition price_row_session :: session where
  "price_row_session = session_on (net_of [(book_url_1, Inr price_row_page)])"

text \<open>A detail page whose table has a row labelled \<open>url\<close>.\<close>

definition url_row_page :: response where
  "url_row_page = page_with_rows [spec_row ''url'' ''elsewhere'']"

definition url_row_session :: session where
  "url_row_session = session_on (net_of [(book_url_1, Inr url_row_page)])"

text \<open>A response 304 Not Modified: it has no body.\<close>

definition not_modified_page :: response where
  "not_modified_page = \<lparr>status_code = 304, document = no_tags\<rparr>"

definition not_modified_session :: session where
  "not_modified_session = session_on (net_of [(book_url_1, Inr not_modified_page)])"

text \<open>A response 404 Not Found.\<close>

definition not_found_page :: response where
  "not_found_page = \<lparr>status_code = 404, document = no_tags\<rparr>"

definition not_found_session :: session where
  "not_found_session = session_on (net_of [(book_url_1, Inr not_found_page)])"

text \<open>A link of a catalogue page, a catalogue page of the given links, and the site
  root.\<close>

definition link :: "string \<Rightarrow> tag" where
  "link href = \<lparr>tag_attrs = [''href'' \<mapsto> AttrStr href], tag_text = []\<rparr>"

definition catalogue_page :: "tag list \<Rightarrow> response" where
  "catalogue_page links =
     \<lparr>status_code = 200, document = no_tags\<lparr>select_product_links := links\<rparr>\<rparr>"

definition home_page :: response where
  "home_page = \<lparr>status_code = 200, document = no_tags\<rparr>"

text \<open>A site with one catalogue page that lists one book; every other address refuses
  the connection.\<close>

definition one_page_site :: "string \<Rightarrow> request_exception + response" where
  "one_page_site =
     net_of [(BASE_URL, Inr home_page),
             (CATALOGUE_URL 1, Inr (catalogue_page [link ''a_1/index.html''])),
             (book_url_1, Inr price_row_page)]"

text \<open>A serialisation to stand for \<^verbatim>\<open>json.dump\<close> in the examples: JSON on one line, for
  strings that need no escaping.\<close>

fun join :: "string \<Rightarrow> string list \<Rightarrow> string" where
  "join sep [] = []"
| "join sep [x] = x"
| "join sep (x # y # xs) = x @ sep @ join sep (y # xs)"

definition quoted :: "string \<Rightarrow> string" where
  "quoted s = CHR 0x22 # s @ [CHR 0x22]"

fun render_value :: "pyval \<Rightarrow> string" where
  "render_value (PyStr s) = quoted s"
| "render_value (PyInt i) = str_int i"
| "render_value PyNone = ''null''"

definition render_record :: "BookData \<Rightarrow> string" where
  "render_record d =
     ''{'' @ join '', '' (map (\<lambda>(k, v). quoted k @ '': '' @ render_value v) d) @ ''}''"

definition render_books :: "BookList \<Rightarrow> string" where
  "render_books book_list = ''['' @ join '', '' (map render_record book_list) @ '']''"

text \<open>An instance of the library: \<^verbatim>\<open>urljoin\<close> for a plain relative name on a catalogue
  page, the futures completing in the reverse order, and the serialisation above.\<close>

definition example_library :: library where
  "example_library =
     \<lparr>urljoin = (\<lambda>page_url href. ''https://books.toscrape.com/catalogue/'' @ href),
      as_completed = rev,
      json_dumps = render_books\<rparr>"

definition no_faults :: os_faults where
  "no_faults = \<lparr>makedirs_fault = None, open_fault = None, write_fault = None\<rparr>"

definition empty_filesystem :: filesystem where
  "empty_filesystem = \<lparr>dirs = {}, files = Map.empty\<rparr>"

text \<open>A site on which one book page answers and another does not exist.\<close>

definition book_url_2 :: string where
  "book_url_2 = ''https://books.toscrape.com/catalogue/missing_2/index.html''"

definition two_book_session :: session where
  "two_book_session =
     session_on (net_of [(book_url_1, Inr price_row_page), (book_url_2, Inr not_found_page)])"

text \<open>A list of one record, a reader that knows its serialisation, a file system in which
  the file already exists, and a fault: the directory may not be created.\<close>

definition one_book :: BookList where
  "one_book = [[(''title'', PyStr ''A''), (''rating'', PyInt 3), (''stock'', PyNone)]]"



definition permission_denied :: os_faults where
  "permission_denied =
     \<lparr>makedirs_fault = Some PermissionError, open_fault = None, write_fault = None\<rparr>"

text \<open>A detail page whose table has a row labelled \<open>Price\<close>, with a capital letter.\<close>

definition capital_row_page :: response where
  "capital_row_page = page_with_rows [spec_row ''Price'' '' 9.99 '']"

definition capital_row_session :: session where
  "capital_row_session = session_on (net_of [(book_url_1, Inr capital_row_page)])"

text \<open>A star-rating element of the given class tags, and a detail page rated Three
  with a specification table of the given rows.\<close>

definition star_tag :: "string list \<Rightarrow> tag" where
  "star_tag classes = \<lparr>tag_attrs = [''class'' \<mapsto> AttrList classes], tag_text = []\<rparr>"

definition rated_page :: "tr_tag list \<Rightarrow> response" where
  "rated_page rows =
     \<lparr>status_code = 200,
      document = no_tags\<lparr>find_p_star_rating := Some (star_tag [''star-rating'', ''Three'']),
                         find_table_striped := Some rows\<rparr>\<rparr>"

text \<open>A page rated Three whose table has no row \<open>rating\<close>, and one whose table has
  such a row.\<close>

definition three_star_page :: response where
  "three_star_page = rated_page [spec_row ''UPC'' ''a897'']"

definition three_star_session :: session where
  "three_star_session = session_on (net_of [(book_url_1, Inr three_star_page)])"

definition rating_row_page :: response where
  "rating_row_page = rated_page [spec_row ''rating'' ''Ten'']"

definition rating_row_session :: session where
  "rating_row_session = session_on (net_of [(book_url_1, Inr rating_row_page)])"

text \<open>A detail page whose table has two rows labelled \<open>price\<close>.\<close>

definition two_price_rows_page :: response where
  "two_price_rows_page = page_with_rows [spec_row ''price'' ''1.00'', spec_row ''price'' ''2.00'']"

definition two_price_rows_session :: session where
  "two_price_rows_session = session_on (net_of [(book_url_1, Inr two_price_rows_page)])"

section \<open>The field extractor\<close>

subsection \<open>Dictionaries\<close>

lemma dict_get_dict_set:
  "dict_get (dict_set d k v) k' = (if k' = k then Some v else dict_get d k')"
  by (simp add: dict_get_def dict_set_def update_conv')

lemma dict_set_keys: "fst ` set (dict_set d k v) = insert k (fst ` set d)"
  by (simp add: dict_set_def dom_update)

lemma distinct_dict_set: "distinct (map fst d) \<Longrightarrow> distinct (map fst (dict_set d k v))"
  by (simp add: dict_set_def distinct_update)

lemma dict_get_in_set: "dict_get d k = Some v \<Longrightarrow> (k, v) \<in> set d"
  by (simp add: dict_get_def map_of_SomeD)

lemma dict_get_None_keys: "dict_get d k = None \<longleftrightarrow> k \<notin> fst ` set d"
  by (simp add: dict_get_def map_of_eq_None_iff)

lemma dict_get_merge_absent:
  "k \<notin> fst ` set e \<Longrightarrow> dict_get (dict_merge d e) k = dict_get d k"
  by (induction e arbitrary: d) (auto simp: dict_get_dict_set)

lemma dict_get_merge_present:
  "distinct (map fst e) \<Longrightarrow> (k, v) \<in> set e \<Longrightarrow> dict_get (dict_merge d e) k = Some v"
proof (induction e arbitrary: d)
  case Nil
  then show ?case by simp
next
  case (Cons p e)
  obtain k' v' where p: "p = (k', v')" by (cases p)
  show ?case
  proof (cases "(k, v) = p")
    case True
    with Cons.prems p have "k \<notin> fst ` set e" by auto
    with True p show ?thesis by (simp add: dict_get_merge_absent dict_get_dict_set)
  next
    case False
    with Cons p show ?thesis by auto
  qed
qed

lemma dict_merge_keys: "fst ` set (dict_merge d e) = fst ` set d \<union> fst ` set e"
proof (induction e arbitrary: d)
  case Nil
  then show ?case by simp
next
  case (Cons p e)
  obtain k v where p: "p = (k, v)" by (cases p)
  show ?case unfolding p by (simp add: Cons.IH dict_set_keys)
qed

lemma dict_merge_not_empty: "d \<noteq> [] \<Longrightarrow> dict_merge d e \<noteq> []"
  using dict_merge_keys [of d e] by (cases d) auto

subsection \<open>The rating\<close>

lemma RATING_MAP_get_vocabulary: "RATING_MAP_get c 0 = vocabulary_rating (Some c)"
  by (simp add: RATING_MAP_get_def RATING_MAP_def vocabulary_rating_def)

lemma vocabulary_rating_range: "0 \<le> vocabulary_rating c \<and> vocabulary_rating c \<le> 5"
  by (simp add: vocabulary_rating_def)

lemma extract_rating_vocabulary: "extract_rating sp = vocabulary_rating (second_class sp)"
  by (simp add: extract_rating_def second_class_def RATING_MAP_get_vocabulary
        split: option.splits attr_value.splits)
     (simp add: vocabulary_rating_def)

subsection \<open>The specification table\<close>

lemma distinct_info_rows:
  "distinct (map fst info) \<Longrightarrow> distinct (map fst (info_rows info rows))"
  by (induction rows arbitrary: info) (auto simp: distinct_dict_set split: option.splits)

lemma distinct_extract_info: "distinct (map fst (extract_info sp))"
  by (simp add: extract_info_def distinct_info_rows split: option.splits)

lemma info_rows_append: "info_rows info (xs @ ys) = info_rows (info_rows info xs) ys"
  by (induction xs arbitrary: info) (auto split: option.splits)

lemma info_rows_unlabelled:
  "\<forall>r \<in> set rows. \<not> row_labelled k r \<Longrightarrow> dict_get (info_rows info rows) k = dict_get info k"
  by (induction rows arbitrary: info)
     (auto simp: row_labelled_def dict_get_dict_set split: option.splits)

lemma info_rows_last_labelled:
  assumes "find_th row = Some th_element" and "find_td row = Some td_element"
    and "\<forall>r \<in> set after. \<not> row_labelled (strip (tag_text th_element)) r"
  shows "dict_get (info_rows info (before @ row # after)) (strip (tag_text th_element))
           = Some (strip (tag_text td_element))"
  using assms by (simp add: info_rows_append info_rows_unlabelled dict_get_dict_set)

subsection \<open>The record\<close>

lemma book_record_info:
  assumes "dict_get (extract_info sp) k = Some v"
  shows "dict_get (book_record sp book_url) k = Some (PyStr v)"
proof -
  let ?e = "map (\<lambda>(info_key, info_value). (info_key, PyStr info_value)) (extract_info sp)"
  have "fst \<circ> (\<lambda>(info_key, info_value). (info_key, PyStr info_value))
          = (fst :: string \<times> string \<Rightarrow> string)"
    by auto
  then have d: "distinct (map fst ?e)" using distinct_extract_info [of sp] by simp
  have "(k, v) \<in> set (extract_info sp)" using assms by (rule dict_get_in_set)
  then have "(k, PyStr v) \<in> set ?e" by force
  with d show ?thesis unfolding book_record_def by (rule dict_get_merge_present)
qed

lemma book_record_fixed:
  assumes "dict_get (extract_info sp) k = None"
  shows "dict_get (book_record sp book_url) k =
           dict_get [(''title'', text_or_none (find_h1 sp)),
                     (''price'', text_or_none (find_p_price_color sp)),
                     (''rating'', PyInt (extract_rating sp)),
                     (''stock'', text_or_none (find_p_instock_availability sp)),
                     (''description'', extract_description sp),
                     (''url'', PyStr book_url)] k"
proof -
  let ?e = "map (\<lambda>(info_key, info_value). (info_key, PyStr info_value)) (extract_info sp)"
  have "fst ` set ?e = fst ` set (extract_info sp)" by force
  then have "k \<notin> fst ` set ?e" using assms by (simp add: dict_get_None_keys)
  then show ?thesis unfolding book_record_def by (rule dict_get_merge_absent)
qed

lemma book_record_not_empty: "book_record sp book_url \<noteq> []"
  unfolding book_record_def by (rule dict_merge_not_empty) simp

lemma get_book_data_success:
  assumes "http s book_url = Inr response" and "raise_for_status response = Inr ()"
  shows "fst (get_book_data s book_url) = book_record (document response) book_url"
  using assms by (simp add: get_book_data_def session_get_def)

lemma get_book_data_failure:
  assumes "http s book_url = Inl exc
           \<or> (\<exists>response exc'. http s book_url = Inr response
                               \<and> raise_for_status response = Inl exc')"
  shows "fst (get_book_data s book_url) = []"
  using assms by (auto simp: get_book_data_def session_get_def)

lemma get_book_data_session:
  "snd (get_book_data s book_url) = s\<lparr>requested := requested s @ [book_url]\<rparr>"
  by (simp add: get_book_data_def session_get_def split: sum.splits)

text \<open>
  Claim C8, as the program has it. A row of the specification table with a header cell
  and a data cell stores its stripped data text under its stripped header text in the
  record of a successful fetch, whatever the label, provided no later such row has the
  same label. When the label is, letter for letter, the key of a fixed field (\<open>title\<close>,
  \<open>price\<close>, \<open>rating\<close>, \<open>stock\<close>, \<open>description\<close>, \<open>url\<close>) the value extracted
  for that field is replaced; nothing guards against it.
\<close>

theorem table_row_overwrites_field:
  assumes "http s book_url = Inr response" and "raise_for_status response = Inr ()"
    and "find_table_striped (document response) = Some (before @ row # after)"
    and "find_th row = Some th_element" and "find_td row = Some td_element"
    and "\<forall>r \<in> set after. \<not> row_labelled (strip (tag_text th_element)) r"
  shows "dict_get (fst (get_book_data s book_url)) (strip (tag_text th_element))
           = Some (PyStr (strip (tag_text td_element)))"
proof -
  have "dict_get (extract_info (document response)) (strip (tag_text th_element))
          = Some (strip (tag_text td_element))"
    using assms(3-6) by (simp add: extract_info_def info_rows_last_labelled)
  then show ?thesis
    using assms(1,2) by (simp add: get_book_data_success book_record_info)
qed

lemma strip_examples:
  "strip ''price'' = ''price''" "strip '' 9.99 '' = ''9.99''" "strip ''UPC'' = ''UPC''"
  by (simp_all add: strip_def isspace_def)

text \<open>The page offers the price 51.77 and its table has a row \<open>price\<close>: the record
  holds the text of the row.\<close>

theorem table_row_overwrites_field_witness:
  "http price_row_session book_url_1 = Inr price_row_page
   \<and> raise_for_status price_row_page = Inr ()
   \<and> find_table_striped (document price_row_page)
       = Some ([spec_row ''UPC'' ''a897''] @ spec_row ''price'' '' 9.99 '' # [])
   \<and> find_th (spec_row ''price'' '' 9.99 '') = Some (cell ''price'')
   \<and> find_td (spec_row ''price'' '' 9.99 '') = Some (cell '' 9.99 '')
   \<and> find_p_price_color (document price_row_page) = Some (cell ''51.77'')
   \<and> dict_get (fst (get_book_data price_row_session book_url_1)) ''price''
       = Some (PyStr ''9.99'')"
  using table_row_overwrites_field
    [of price_row_session book_url_1 price_row_page
        "[spec_row ''UPC'' ''a897'']" "spec_row ''price'' '' 9.99 ''" "[]"
        "cell ''price''" "cell '' 9.99 ''"]
  by (simp add: price_row_session_def price_row_page_def session_on_def net_of_def
        page_with_rows_def spec_row_def cell_def raise_for_status_def no_tags_def
        strip_examples)

text \<open>The claim as stated fails on its own example, a row labelled \<open>Price\<close>: the keys
  of the fixed fields are in lower case, the field \<open>price\<close> keeps the extracted value
  and the record gains a key \<open>Price\<close>. And of two rows labelled \<open>price\<close> the value
  of the first is not in the record.\<close>

theorem differing_label_counterexample:
  "find_table_striped (document capital_row_page) = Some [spec_row ''Price'' '' 9.99 '']
   \<and> dict_get (fst (get_book_data capital_row_session book_url_1)) ''price''
       = Some (PyStr ''51.77'')
   \<and> dict_get (fst (get_book_data capital_row_session book_url_1)) ''Price''
       = Some (PyStr ''9.99'')
   \<and> find_table_striped (document two_price_rows_page)
       = Some [spec_row ''price'' ''1.00'', spec_row ''price'' ''2.00'']
   \<and> dict_get (fst (get_book_data two_price_rows_session book_url_1)) ''price''
       = Some (PyStr ''2.00'')"
  by (simp add: capital_row_session_def capital_row_page_def two_price_rows_session_def
        two_price_rows_page_def session_on_def net_of_def
        page_with_rows_def get_book_data_def session_get_def raise_for_status_def
        book_record_def extract_info_def spec_row_def cell_def no_tags_def dict_set_def
        dict_get_def text_or_none_def strip_def isspace_def)

lemma get_book_data_empty_iff: "(fst (get_book_data s u) = []) = fetch_failed s u"
  by (auto simp: get_book_data_def session_get_def raise_for_status_def fetch_failed_def
        book_record_not_empty split: sum.splits)

lemma extract_info_unlabelled:
  "\<forall>r \<in> set (table_rows sp). \<not> row_labelled k r \<Longrightarrow> dict_get (extract_info sp) k = None"
proof (cases "find_table_striped sp")
  case None
  then show ?thesis by (simp add: extract_info_def dict_get_def)
next
  case (Some rows)
  assume "\<forall>r \<in> set (table_rows sp). \<not> row_labelled k r"
  with Some have "\<forall>r \<in> set rows. \<not> row_labelled k r" by (simp add: table_rows_def)
  then have "dict_get (info_rows [] rows) k = dict_get [] k" by (rule info_rows_unlabelled)
  with Some show ?thesis by (simp add: extract_info_def dict_get_def)
qed

lemma book_record_has_url: "dict_get (book_record sp book_url) ''url'' \<noteq> None"
proof (cases "dict_get (extract_info sp) ''url''")
  case None
  then show ?thesis by (simp add: book_record_fixed) (simp add: dict_get_def)
next
  case (Some v)
  then show ?thesis by (simp add: book_record_info)
qed

text \<open>
  Claim C3, as the program has it. When the fetch did not fail the returned record is not
  empty and has the key \<open>url\<close>; the value of \<open>url\<close> is the requested address when
  no row of the specification table with a header cell and a data cell is labelled
  \<open>url\<close>; such a row replaces the address by its own text. For every address the
  returned record is empty exactly when the fetch failed.
\<close>

theorem successful_record_has_url:
  assumes "http s book_url = Inr response" and "raise_for_status response = Inr ()"
  shows "fst (get_book_data s book_url) \<noteq> []
         \<and> dict_get (fst (get_book_data s book_url)) ''url'' \<noteq> None
         \<and> ((\<forall>r \<in> set (table_rows (document response)). \<not> row_labelled ''url'' r)
              \<longrightarrow> dict_get (fst (get_book_data s book_url)) ''url'' = Some (PyStr book_url))
         \<and> (\<forall>u. (fst (get_book_data s u) = []) = fetch_failed s u)"
proof -
  have rec: "fst (get_book_data s book_url) = book_record (document response) book_url"
    using assms by (rule get_book_data_success)
  have "dict_get (book_record (document response) book_url) ''url'' = Some (PyStr book_url)"
    if "\<forall>r \<in> set (table_rows (document response)). \<not> row_labelled ''url'' r"
    using extract_info_unlabelled [OF that] by (simp add: book_record_fixed) (simp add: dict_get_def)
  then show ?thesis
    by (simp add: rec book_record_not_empty book_record_has_url get_book_data_empty_iff)
qed

text \<open>A page without a row \<open>url\<close>: the record holds the requested address. A missing
  page: the record is empty.\<close>

theorem successful_record_has_url_witness:
  "http price_row_session book_url_1 = Inr price_row_page
   \<and> raise_for_status price_row_page = Inr ()
   \<and> fst (get_book_data price_row_session book_url_1) \<noteq> []
   \<and> dict_get (fst (get_book_data price_row_session book_url_1)) ''url'' = Some (PyStr book_url_1)
   \<and> \<not> fetch_failed price_row_session book_url_1
   \<and> fetch_failed price_row_session book_url_2
   \<and> fst (get_book_data price_row_session book_url_2) = []"
proof -
  have h1: "http price_row_session book_url_1 = Inr price_row_page"
    by (simp add: price_row_session_def session_on_def net_of_def)
  have h2: "raise_for_status price_row_page = Inr ()"
    by (simp add: price_row_page_def page_with_rows_def raise_for_status_def)
  have h3: "\<forall>r \<in> set (table_rows (document price_row_page)). \<not> row_labelled ''url'' r"
    by (simp add: price_row_page_def page_with_rows_def table_rows_def row_labelled_def
          spec_row_def cell_def strip_examples)
  have h4: "fetch_failed price_row_session book_url_2"
    by (simp add: fetch_failed_def price_row_session_def session_on_def net_of_def
          book_url_1_def book_url_2_def)
  have h5: "\<not> fetch_failed price_row_session book_url_1"
    by (simp add: fetch_failed_def h1) (simp add: price_row_page_def page_with_rows_def)
  show ?thesis using successful_record_has_url [OF h1 h2] h1 h2 h3 h4 h5 by simp
qed

text \<open>The claim as stated fails: the fetch succeeds with status 200 and the value of
  \<open>url\<close> is the text of the table row, not the requested address.\<close>

theorem url_overwritten_counterexample:
  "http url_row_session book_url_1 = Inr url_row_page
   \<and> status_code url_row_page = 200
   \<and> raise_for_status url_row_page = Inr ()
   \<and> dict_get (fst (get_book_data url_row_session book_url_1)) ''url'' = Some (PyStr ''elsewhere'')
   \<and> PyStr ''elsewhere'' \<noteq> PyStr book_url_1"
  by (simp add: url_row_session_def url_row_page_def session_on_def net_of_def
        page_with_rows_def get_book_data_def session_get_def raise_for_status_def
        book_record_def extract_info_def spec_row_def cell_def no_tags_def dict_set_def
        dict_get_def strip_def isspace_def book_url_1_def)

text \<open>
  Claim C4, as the program has it. The rating computed by the extractor is the value of
  the second class tag (index 1) of the star-rating element in the vocabulary One to Five,
  0 when that tag is not in the vocabulary or is missing, an integer between 0 and 5. It
  is the value of \<open>rating\<close> in the record of a successful fetch when no row of the
  specification table with a header cell and a data cell is labelled \<open>rating\<close>.
\<close>

theorem rating_is_vocabulary_lookup:
  assumes "http s book_url = Inr response" and "raise_for_status response = Inr ()"
    and "\<forall>r \<in> set (table_rows (document response)). \<not> row_labelled ''rating'' r"
  shows "dict_get (fst (get_book_data s book_url)) ''rating''
           = Some (PyInt (vocabulary_rating (second_class (document response))))
         \<and> 0 \<le> vocabulary_rating (second_class (document response))
         \<and> vocabulary_rating (second_class (document response)) \<le> 5
         \<and> (\<forall>sp. extract_rating sp = vocabulary_rating (second_class sp)
                  \<and> 0 \<le> extract_rating sp \<and> extract_rating sp \<le> 5)"
proof -
  have rec: "fst (get_book_data s book_url) = book_record (document response) book_url"
    using assms(1,2) by (rule get_book_data_success)
  have "dict_get (book_record (document response) book_url) ''rating''
          = Some (PyInt (extract_rating (document response)))"
    using extract_info_unlabelled [OF assms(3)]
    by (simp add: book_record_fixed) (simp add: dict_get_def)
  then show ?thesis
    using vocabulary_rating_range by (simp add: rec extract_rating_vocabulary)
qed

text \<open>A page rated Three without a row \<open>rating\<close>: the record holds the integer 3.\<close>

theorem rating_is_vocabulary_lookup_witness:
  "http three_star_session book_url_1 = Inr three_star_page
   \<and> raise_for_status three_star_page = Inr ()
   \<and> second_class (document three_star_page) = Some ''Three''
   \<and> dict_get (fst (get_book_data three_star_session book_url_1)) ''rating'' = Some (PyInt 3)"
proof -
  have h1: "http three_star_session book_url_1 = Inr three_star_page"
    by (simp add: three_star_session_def session_on_def net_of_def)
  have h2: "raise_for_status three_star_page = Inr ()"
    by (simp add: three_star_page_def rated_page_def raise_for_status_def)
  have h3: "\<forall>r \<in> set (table_rows (document three_star_page)). \<not> row_labelled ''rating'' r"
    by (simp add: three_star_page_def rated_page_def table_rows_def row_labelled_def
          spec_row_def cell_def strip_def isspace_def)
  have h4: "second_class (document three_star_page) = Some ''Three''"
    by (simp add: three_star_page_def rated_page_def second_class_def star_tag_def no_tags_def)
  show ?thesis
    using rating_is_vocabulary_lookup [OF h1 h2 h3] h1 h2 h4
    by (simp add: vocabulary_rating_def)
qed

text \<open>The claim as stated fails: the page is rated Three and its table has a row
  \<open>rating\<close>; the value of \<open>rating\<close> in the record is the text of the row, a
  string, not an integer between 0 and 5.\<close>

theorem rating_row_counterexample:
  "http rating_row_session book_url_1 = Inr rating_row_page
   \<and> raise_for_status rating_row_page = Inr ()
   \<and> second_class (document rating_row_page) = Some ''Three''
   \<and> extract_rating (document rating_row_page) = 3
   \<and> dict_get (fst (get_book_data rating_row_session book_url_1)) ''rating''
       = Some (PyStr ''Ten'')"
  by (simp add: rating_row_session_def rating_row_page_def rated_page_def session_on_def
        net_of_def get_book_data_def session_get_def raise_for_status_def book_record_def
        extract_info_def extract_rating_def second_class_def RATING_MAP_get_def RATING_MAP_def
        star_tag_def spec_row_def cell_def no_tags_def dict_set_def dict_get_def strip_def
        isspace_def)

text \<open>
  Claim C2, as the program has it. When \<^verbatim>\<open>session.get\<close> raises a
  \<^verbatim>\<open>RequestException\<close> (a transport error, a timeout) or the response has an error
  status, 400 to 599, \<^verbatim>\<open>get_book_data\<close> returns the empty dictionary: the exception
  does not reach the caller.
\<close>

theorem failed_fetch_gives_empty_record:
  assumes "http s book_url = Inl exc
           \<or> (http s book_url = Inr response
               \<and> 400 \<le> status_code response \<and> status_code response < 600)"
  shows "fst (get_book_data s book_url) = []"
  using assms by (auto simp: get_book_data_def session_get_def raise_for_status_def)

theorem failed_fetch_gives_empty_record_witness:
  "http not_found_session book_url_1 = Inr not_found_page
   \<and> status_code not_found_page = 404
   \<and> fst (get_book_data not_found_session book_url_1) = []
   \<and> http (session_on (net_of [])) book_url_1 = Inl ConnectionError
   \<and> fst (get_book_data (session_on (net_of [])) book_url_1) = []"
  using failed_fetch_gives_empty_record [of not_found_session book_url_1 ConnectionError not_found_page]
    failed_fetch_gives_empty_record [of "session_on (net_of [])" book_url_1 ConnectionError not_found_page]
  by (simp add: not_found_session_def not_found_page_def session_on_def net_of_def)

text \<open>The claim as stated fails on a status that is neither a success nor an error
  status: \<^verbatim>\<open>raise_for_status\<close> accepts 304 and the empty body is parsed into a
  record of six fields.\<close>

theorem not_modified_counterexample:
  "http not_modified_session book_url_1 = Inr not_modified_page
   \<and> status_code not_modified_page = 304
   \<and> fst (get_book_data not_modified_session book_url_1)
       = [(''title'', PyNone), (''price'', PyNone), (''rating'', PyInt 0),
          (''stock'', PyNone), (''description'', PyNone), (''url'', PyStr book_url_1)]"
  by (simp add: not_modified_session_def not_modified_page_def session_on_def net_of_def
        get_book_data_def session_get_def raise_for_status_def book_record_def
        extract_info_def extract_rating_def extract_description_def text_or_none_def
        no_tags_def)

section \<open>The catalogue walk\<close>

text \<open>The walk depends on \<open>max_pages\<close> only through the cap test.\<close>

lemma collect_book_urls_cap_mono:
  assumes "collect_book_urls uj mp page acc s = Some r"
    and "\<And>p. cap_reached mp p = cap_reached mp' p"
  shows "collect_book_urls uj mp' page acc s = Some r"
  using assms(2)
proof (induction rule: collect_book_urls.raw_induct [OF _ assms(1)])
  case (1 collect uj mp page acc s r)
  show ?case
  proof (cases "cap_reached mp page")
    case True
    then have "cap_reached mp' page" using "1.prems" by simp
    with True "1.hyps" show ?thesis by (simp add: collect_book_urls.simps)
  next
    case False
    then have F': "\<not> cap_reached mp' page" using "1.prems" by simp
    have IH': "collect_book_urls uj mp' p' acc' s1 = Some r'"
      if "collect uj mp p' acc' s1 = Some r'" for p' acc' s1 r'
    proof -
      obtain a b where r': "r' = (a, b)" by (cases r')
      show ?thesis using that unfolding r' by (rule "1.IH") (rule "1.prems")
    qed
    show ?thesis
      using "1.hyps" False F'
      by (subst collect_book_urls.simps)
         (auto split: prod.splits sum.splits if_splits intro: IH')
  qed
qed

lemma collect_book_urls_cap_cong:
  assumes "\<And>p. cap_reached mp p = cap_reached mp' p"
  shows "collect_book_urls uj mp page acc s = collect_book_urls uj mp' page acc s"
proof (cases "collect_book_urls uj mp page acc s")
  case None
  show ?thesis
  proof (cases "collect_book_urls uj mp' page acc s")
    case None
    with \<open>collect_book_urls uj mp page acc s = None\<close> show ?thesis by simp
  next
    case (Some r)
    have "collect_book_urls uj mp page acc s = Some r"
      by (rule collect_book_urls_cap_mono [of uj mp']) (simp_all add: Some assms)
    with Some show ?thesis by simp
  qed
next
  case (Some r)
  have "collect_book_urls uj mp' page acc s = Some r"
    by (rule collect_book_urls_cap_mono [of uj mp]) (simp_all add: Some assms)
  with Some show ?thesis by simp
qed

lemma cap_zero: "cap_reached (Some 0) p = cap_reached None p"
  by (simp add: cap_reached_def)

lemma http_session_get [simp]: "http (snd (session_get s url)) = http s"
  by (simp add: session_get_def)

section \<open>The run\<close>

text \<open>
  Claim C6. When the check of the site root fails (\<^verbatim>\<open>session.get\<close> raises, or the status
  is an error status) the run returns the empty list at once: the only address requested
  is the site root, so neither the catalogue walk nor the dispatch took place, and the file
  system is untouched. The run returns even on a site whose walk would not end.
\<close>

theorem unreachable_site_aborts_run:
  assumes "net BASE_URL = Inl exc
           \<or> (net BASE_URL = Inr response
               \<and> 400 \<le> status_code response \<and> status_code response < 600)"
  shows "scrape_books lib net faults fs is_save max_pages
           = Some ([], \<lparr>http = net, requested = [BASE_URL]\<rparr>, fs)"
  using assms
  by (auto simp: scrape_books_def site_available_def session_get_def raise_for_status_def)

theorem unreachable_site_aborts_run_witness:
  "net_of [] BASE_URL = Inl ConnectionError
   \<and> scrape_books example_library (net_of []) no_faults empty_filesystem True None
       = Some ([], \<lparr>http = net_of [], requested = [BASE_URL]\<rparr>, empty_filesystem)"
  using unreachable_site_aborts_run
    [of "net_of []" ConnectionError home_page example_library no_faults empty_filesystem True None]
  by (simp add: net_of_def)

section \<open>The walk, page by page\<close>

lemma append_links_acc:
  "append_links uj page_url acc links = acc @ append_links uj page_url [] links"
proof (induction links arbitrary: acc)
  case Nil
  then show ?case by simp
next
  case (Cons l links)
  show ?case
    using Cons.IH [of "acc @ [uj page_url h]" for h] Cons.IH [of "[uj page_url h]" for h]
      Cons.IH [of acc]
    by (simp split: option.splits attr_value.splits)
qed

lemma walk_pages_acc: "walk_pages uj net page n acc = acc @ walk_pages uj net page n []"
proof (induction n arbitrary: page acc)
  case 0
  then show ?case by simp
next
  case (Suc n)
  show ?case
    using Suc.IH [of "page + 1" "append_links uj (CATALOGUE_URL page) acc (page_links net page)"]
      Suc.IH [of "page + 1" "append_links uj (CATALOGUE_URL page) [] (page_links net page)"]
      append_links_acc [of uj "CATALOGUE_URL page" acc "page_links net page"]
    by simp
qed

lemma collect_book_urls_stop_cap:
  "cap_reached mp page \<Longrightarrow> collect_book_urls uj mp page acc s = Some (acc, s)"
  by (subst collect_book_urls.simps) simp

lemma collect_book_urls_stop_page:
  "\<not> cap_reached mp page \<Longrightarrow> \<not> page_continues (http s) page \<Longrightarrow>
   collect_book_urls uj mp page acc s
     = Some (acc, s\<lparr>requested := requested s @ [CATALOGUE_URL page]\<rparr>)"
  by (subst collect_book_urls.simps)
     (auto simp: page_continues_def session_get_def split: sum.splits)

lemma collect_book_urls_step:
  "\<not> cap_reached mp page \<Longrightarrow> page_continues (http s) page \<Longrightarrow>
   collect_book_urls uj mp page acc s
     = collect_book_urls uj mp (page + 1)
         (append_links uj (CATALOGUE_URL page) acc (page_links (http s) page))
         (s\<lparr>requested := requested s @ [CATALOGUE_URL page]\<rparr>)"
  by (subst collect_book_urls.simps)
     (auto simp: page_continues_def page_links_def session_get_def split: sum.splits)

lemma collect_book_urls_walk:
  assumes "\<forall>i < n. \<not> cap_reached mp (page + int i) \<and> page_continues (http s) (page + int i)"
  shows "collect_book_urls uj mp page acc s
           = collect_book_urls uj mp (page + int n) (walk_pages uj (http s) page n acc)
               (s\<lparr>requested := requested s @ page_urls page n\<rparr>)"
  using assms
proof (induction n arbitrary: page acc s)
  case 0
  then show ?case by simp
next
  case (Suc n)
  from Suc.prems have first: "\<not> cap_reached mp page" "page_continues (http s) page"
    by force+
  let ?s = "s\<lparr>requested := requested s @ [CATALOGUE_URL page]\<rparr>"
  have rest: "\<forall>i < n. \<not> cap_reached mp (page + 1 + int i)
                      \<and> page_continues (http ?s) (page + 1 + int i)"
  proof (intro allI impI)
    fix i assume "i < n"
    then have "Suc i < Suc n" by simp
    with Suc.prems have h: "\<not> cap_reached mp (page + int (Suc i))
                            \<and> page_continues (http s) (page + int (Suc i))" by blast
    have eq: "page + 1 + int i = page + int (Suc i)" by simp
    have "http ?s = http s" by simp
    then show "\<not> cap_reached mp (page + 1 + int i)
               \<and> page_continues (http ?s) (page + 1 + int i)"
      unfolding eq using h by simp
  qed
  show ?case
    using Suc.IH [OF rest, of "append_links uj (CATALOGUE_URL page) acc (page_links (http s) page)"]
    by (simp add: collect_book_urls_step [OF first] add.assoc)
qed

lemma walk_stops_at_first_terminal:
  assumes "\<forall>i < n. \<not> cap_reached mp (page + int i) \<and> page_continues (http s) (page + int i)"
    and "cap_reached mp (page + int n) \<or> \<not> page_continues (http s) (page + int n)"
  shows "collect_book_urls uj mp page acc s
           = Some (acc @ walk_pages uj (http s) page n [],
                   s\<lparr>requested := requested s @ page_urls page n
                        @ (if cap_reached mp (page + int n) then []
                           else [CATALOGUE_URL (page + int n)])\<rparr>)"
proof (cases "cap_reached mp (page + int n)")
  case True
  then show ?thesis
    using collect_book_urls_walk [OF assms(1), of uj acc] walk_pages_acc [of uj "http s" page n acc]
    by (simp add: collect_book_urls_stop_cap)
next
  case False
  with assms(2) have "\<not> page_continues (http s) (page + int n)" by simp
  then have "\<not> page_continues (http (s\<lparr>requested := requested s @ page_urls page n\<rparr>)) (page + int n)"
    by simp
  from collect_book_urls_stop_page [OF False this] show ?thesis
    using collect_book_urls_walk [OF assms(1), of uj acc] walk_pages_acc [of uj "http s" page n acc]
      False
    by simp
qed

lemma capped_walk_terminates:
  assumes "m \<noteq> 0"
  shows "\<exists>r. collect_book_urls uj (Some m) page acc s = Some r"
proof (induction "nat (m + 1 - page)" arbitrary: page acc s)
  case 0
  then have "cap_reached (Some m) page" using assms by (simp add: cap_reached_def)
  then show ?case by (simp add: collect_book_urls_stop_cap)
next
  case (Suc k)
  show ?case
  proof (cases "cap_reached (Some m) page")
    case True
    then show ?thesis by (simp add: collect_book_urls_stop_cap)
  next
    case False
    show ?thesis
    proof (cases "page_continues (http s) page")
      case True
      from Suc.hyps(2) have "k = nat (m + 1 - (page + 1))" by simp
      from Suc.hyps(1) [OF this] show ?thesis
        by (simp add: collect_book_urls_step [OF False True])
    next
      case no: False
      show ?thesis by (simp add: collect_book_urls_stop_page [OF False no])
    qed
  qed
qed

section \<open>The page cap\<close>

lemma CATALOGUE_URL_1: "CATALOGUE_URL 1 = ''https://books.toscrape.com/catalogue/page-1.html''"
  by (simp add: CATALOGUE_URL_def str_int_def str_nat.simps)

lemma CATALOGUE_URL_2: "CATALOGUE_URL 2 = ''https://books.toscrape.com/catalogue/page-2.html''"
  by (simp add: CATALOGUE_URL_def str_int_def str_nat.simps)

text \<open>
  Claim C5 says that a walk with \<open>max_pages\<close> set stops as soon as the page number
  exceeds \<open>max_pages\<close>. With \<open>max_pages = 0\<close> the program does not: page 1 exceeds the
  cap, yet the walk requests page 1, collects its link and goes on to page 2, where the
  refused connection stops it. (For every other value of \<open>max_pages\<close> the walk does stop
  at the first page that exceeds the cap, fails or has no links, and it ends:
  \<open>walk_stops_at_first_terminal\<close> and \<open>capped_walk_terminates\<close>.)
\<close>

theorem zero_cap_walks_page_one:
  "collect_book_urls (urljoin example_library) (Some 0) 1 []
     \<lparr>http = one_page_site, requested = [BASE_URL]\<rparr>
   = Some ([book_url_1],
           \<lparr>http = one_page_site,
            requested = [BASE_URL, CATALOGUE_URL 1, CATALOGUE_URL 2]\<rparr>)"
  apply (subst collect_book_urls.simps)
  apply (simp add: cap_reached_def session_get_def one_page_site_def net_of_def BASE_URL_def
      CATALOGUE_URL_1 CATALOGUE_URL_2 book_url_1_def catalogue_page_def no_tags_def link_def
      example_library_def)
  apply (subst collect_book_urls.simps)
  apply (simp add: cap_reached_def session_get_def one_page_site_def net_of_def BASE_URL_def
      CATALOGUE_URL_1 CATALOGUE_URL_2 book_url_1_def catalogue_page_def no_tags_def link_def
      example_library_def)
  done

subsection \<open>The cap 0\<close>

lemma page_urls_snoc: "page_urls page n @ [CATALOGUE_URL (page + int n)] = page_urls page (Suc n)"
proof (induction n arbitrary: page)
  case 0
  then show ?case by simp
next
  case (Suc n)
  have eq: "page + 1 + int n = page + int (Suc n)" by simp
  show ?case using Suc [of "page + 1"] unfolding eq by simp
qed

lemma returning_walk_has_terminal:
  assumes "collect_book_urls uj mp page acc s = Some r"
  shows "\<exists>n. cap_reached mp (page + int n) \<or> \<not> page_continues (http s) (page + int n)"
proof (induction rule: collect_book_urls.raw_induct [OF _ assms])
  case (1 collect uj mp page acc s r)
  show ?case
  proof (cases "cap_reached mp page \<or> \<not> page_continues (http s) page")
    case True
    then have "cap_reached mp (page + int 0) \<or> \<not> page_continues (http s) (page + int 0)"
      by simp
    then show ?thesis by (rule exI)
  next
    case False
    let ?s = "s\<lparr>requested := requested s @ [CATALOGUE_URL page]\<rparr>"
    let ?acc = "append_links uj (CATALOGUE_URL page) acc (page_links (http s) page)"
    from False "1.hyps" have "collect uj mp (page + 1) ?acc ?s = Some r"
      by (auto simp: page_continues_def page_links_def session_get_def
            split: sum.splits if_splits)
    moreover obtain a b where "r = (a, b)" by (cases r)
    ultimately have "\<exists>n. cap_reached mp (page + 1 + int n)
                         \<or> \<not> page_continues (http ?s) (page + 1 + int n)"
      using "1.IH" by blast
    then obtain n where "cap_reached mp (page + 1 + int n)
                         \<or> \<not> page_continues (http s) (page + 1 + int n)" by auto
    moreover have "page + 1 + int n = page + int (Suc n)" by simp
    ultimately have "cap_reached mp (page + int (Suc n))
                     \<or> \<not> page_continues (http s) (page + int (Suc n))" by simp
    then show ?thesis by (rule exI)
  qed
qed

lemma uncapped_walk:
  assumes "\<forall>i < n. page_continues (http s) (page + int i)"
    and "\<not> page_continues (http s) (page + int n)"
  shows "collect_book_urls uj (Some 0) page acc s
           = Some (acc @ walk_pages uj (http s) page n [],
                   s\<lparr>requested := requested s @ page_urls page (Suc n)\<rparr>)"
proof -
  have "\<forall>i < n. \<not> cap_reached (Some 0) (page + int i) \<and> page_continues (http s) (page + int i)"
    using assms(1) by (simp add: cap_reached_def)
  moreover have "cap_reached (Some 0) (page + int n) \<or> \<not> page_continues (http s) (page + int n)"
    using assms(2) by simp
  ultimately show ?thesis
    using walk_stops_at_first_terminal [of n "Some 0" page s uj acc] page_urls_snoc [of page n]
    by (simp add: cap_reached_def)
qed

lemma endless_walk:
  assumes "\<forall>i. page_continues (http s) (page + int i)"
  shows "collect_book_urls uj (Some 0) page acc s = None"
proof (cases "collect_book_urls uj (Some 0) page acc s")
  case None
  then show ?thesis .
next
  case (Some r)
  from returning_walk_has_terminal [OF Some] assms show ?thesis
    by (simp add: cap_reached_def)
qed

lemma zero_cap_requests_a_page:
  "collect_book_urls uj (Some 0) page acc s \<noteq> Some (acc', s)"
proof (cases "\<exists>n. \<not> page_continues (http s) (page + int n)")
  case True
  define n where "n = (LEAST n. \<not> page_continues (http s) (page + int n))"
  have last: "\<not> page_continues (http s) (page + int n)"
    unfolding n_def using True by (rule LeastI_ex)
  have "\<forall>i < n. page_continues (http s) (page + int i)"
    unfolding n_def using not_less_Least by blast
  from uncapped_walk [OF this last, of uj acc] show ?thesis
    by (auto dest: arg_cong [where f = "\<lambda>t. length (requested t)"])
next
  case False
  then have "collect_book_urls uj (Some 0) page acc s = None"
    by (simp add: endless_walk)
  then show ?thesis by simp
qed

text \<open>
  Claim C10. With \<open>max_pages = 0\<close> the cap test never fires, 0 being falsy: the walk and
  the whole run are the ones of \<open>max_pages = None\<close>. The walk does not stop before the
  first page: it requests page after page up to and including the first page that fails,
  has another status than 200 or has no links, collecting the links of the pages before
  it; when there is no such page it does not end.
\<close>

theorem zero_cap_is_no_cap:
  "collect_book_urls uj (Some 0) page acc s = collect_book_urls uj None page acc s
   \<and> scrape_books lib net faults fs is_save (Some 0)
       = scrape_books lib net faults fs is_save None
   \<and> (\<forall>n. (\<forall>i < n. page_continues (http s) (page + int i))
            \<and> \<not> page_continues (http s) (page + int n)
          \<longrightarrow> collect_book_urls uj (Some 0) page acc s
                = Some (acc @ walk_pages uj (http s) page n [],
                        s\<lparr>requested := requested s @ page_urls page (Suc n)\<rparr>))
   \<and> ((\<forall>i. page_continues (http s) (page + int i))
        \<longrightarrow> collect_book_urls uj (Some 0) page acc s = None)
   \<and> collect_book_urls uj (Some 0) page acc s \<noteq> Some (acc, s)"
proof -
  have walk: "collect_book_urls uj (Some 0) p a t = collect_book_urls uj None p a t" for uj p a t
    by (rule collect_book_urls_cap_cong) (rule cap_zero)
  have run: "scrape_books lib net faults fs is_save (Some 0)
               = scrape_books lib net faults fs is_save None"
    unfolding scrape_books_def walk by simp
  show ?thesis
    using walk [of uj page acc s] run zero_cap_requests_a_page [of uj page acc s acc]
    by (auto simp: uncapped_walk endless_walk simp del: page_urls.simps)
qed

lemma one_page_site_pages:
  "page_continues one_page_site 1" "\<not> page_continues one_page_site 2"
  by (simp_all add: page_continues_def one_page_site_def net_of_def BASE_URL_def
        CATALOGUE_URL_1 CATALOGUE_URL_2 book_url_1_def catalogue_page_def no_tags_def link_def)

text \<open>A site with one catalogue page: with the cap 0, and with no cap, page 1 and page 2
  are requested and the link of page 1 is collected.\<close>

theorem zero_cap_is_no_cap_witness:
  "page_continues one_page_site 1 \<and> \<not> page_continues one_page_site 2
   \<and> collect_book_urls (urljoin example_library) (Some 0) 1 []
       \<lparr>http = one_page_site, requested = [BASE_URL]\<rparr>
     = Some ([book_url_1],
             \<lparr>http = one_page_site,
              requested = [BASE_URL, CATALOGUE_URL 1, CATALOGUE_URL 2]\<rparr>)
   \<and> collect_book_urls (urljoin example_library) None 1 []
       \<lparr>http = one_page_site, requested = [BASE_URL]\<rparr>
     = Some ([book_url_1],
             \<lparr>http = one_page_site,
              requested = [BASE_URL, CATALOGUE_URL 1, CATALOGUE_URL 2]\<rparr>)"
proof -
  let ?s = "\<lparr>http = one_page_site, requested = [BASE_URL]\<rparr>"
  have h: "(\<forall>i < 1. page_continues (http ?s) (1 + int i))
           \<and> \<not> page_continues (http ?s) (1 + int 1)"
    using one_page_site_pages by simp
  have links: "append_links (urljoin example_library) (CATALOGUE_URL 1) []
                 (page_links one_page_site 1) = [book_url_1]"
    by (simp add: page_links_def one_page_site_def net_of_def BASE_URL_def
          CATALOGUE_URL_1 CATALOGUE_URL_2 book_url_1_def catalogue_page_def no_tags_def link_def
          example_library_def)
  have c: "collect_book_urls (urljoin example_library) (Some 0) 1 [] ?s
             = collect_book_urls (urljoin example_library) None 1 [] ?s
           \<and> collect_book_urls (urljoin example_library) (Some 0) 1 [] ?s
               = Some ([] @ walk_pages (urljoin example_library) (http ?s) 1 1 [],
                       ?s\<lparr>requested := requested ?s @ page_urls 1 (Suc 1)\<rparr>)"
    using zero_cap_is_no_cap [of "urljoin example_library" 1 "[]" ?s] h by blast
  show ?thesis using c one_page_site_pages by (auto simp: links)
qed

section \<open>The fetch dispatch\<close>

lemma collect_results_acc:
  "collect_results completed parsed_books failed_count
     = (parsed_books @ List.map_filter returned_record completed,
        failed_count + length (filter (\<lambda>f. returned_record f = None) completed))"
proof (induction completed arbitrary: parsed_books failed_count)
  case Nil
  then show ?case by (simp add:)
next
  case (Cons f completed)
  obtain future url where f: "f = (future, url)" by (cases f)
  show ?case
    unfolding f
    by (cases future) (simp_all add: Cons.IH returned_record_def)
qed

lemma mset_map_filter:
  "mset xs = mset ys \<Longrightarrow> mset (List.map_filter g xs) = mset (List.map_filter g ys)"
proof -
  assume eq: "mset xs = mset ys"
  have "mset (List.map_filter g zs)
          = image_mset (the \<circ> g) (filter_mset (\<lambda>x. g x \<noteq> None) (mset zs))" for zs
    by (simp add: map_filter_def)
  with eq show ?thesis by simp
qed

lemma length_filter_mset:
  "mset xs = mset ys \<Longrightarrow> length (filter P xs) = length (filter P ys)"
proof -
  assume "mset xs = mset ys"
  then have "mset (filter P xs) = mset (filter P ys)" by simp
  then show ?thesis by (rule mset_eq_length)
qed

lemma length_map_filter_split:
  "length (List.map_filter g xs) + length (filter (\<lambda>x. g x = None) xs) = length xs"
  by (induction xs) (auto split: option.splits)

lemma submit_all_urls: "map snd (fst (submit_all s all_book_urls)) = all_book_urls"
proof (induction all_book_urls arbitrary: s)
  case Nil
  then show ?case by simp
next
  case (Cons url all_book_urls)
  obtain book_data s' where g: "get_book_data s url = (book_data, s')"
    by (cases "get_book_data s url")
  obtain futures s'' where r: "submit_all s' all_book_urls = (futures, s'')"
    by (cases "submit_all s' all_book_urls")
  from Cons.IH [of s'] r have "map snd futures = all_book_urls" by simp
  then show ?case by (simp add: g r)
qed

text \<open>
  Claim C1. One future per discovered address, whatever each task returns or raises, and
  the futures handed back in any order, each once: the records appended and the failures
  counted add up to the number of addresses; the records appended are exactly the
  non-empty records the tasks returned, each as often as it was returned; the failures
  are exactly the tasks that returned the empty dictionary or raised. The futures the
  program submits are of this kind (\<open>submit_all_urls\<close>).
\<close>

theorem dispatch_accounts_for_every_task:
  assumes "map snd futures = all_book_urls"
    and "mset completed = mset futures"
  shows "length (fst (collect_results completed [] 0)) + snd (collect_results completed [] 0)
           = length all_book_urls
         \<and> mset (fst (collect_results completed [] 0))
             = mset (List.map_filter returned_record futures)
         \<and> snd (collect_results completed [] 0)
             = length (filter (\<lambda>f. returned_record f = None) futures)"
proof -
  have n: "length futures = length all_book_urls"
    using assms(1) by (metis length_map)
  have len: "length completed = length futures"
    using assms(2) by (rule mset_eq_length)
  have "length (List.map_filter returned_record completed)
          + length (filter (\<lambda>f. returned_record f = None) completed) = length completed"
    by (rule length_map_filter_split)
  with n len show ?thesis
    by (simp add: collect_results_acc mset_map_filter [OF assms(2)]
          length_filter_mset [OF assms(2)])
qed

text \<open>Two addresses, the second one missing, completed in the reverse order.\<close>

lemma two_book_futures:
  "fst (submit_all two_book_session [book_url_1, book_url_2])
     = [(Returned (book_record (document price_row_page) book_url_1), book_url_1),
        (Returned [], book_url_2)]"
  by (simp add: two_book_session_def session_on_def net_of_def get_book_data_def
        session_get_def raise_for_status_def book_url_1_def book_url_2_def
        price_row_page_def page_with_rows_def not_found_page_def)

theorem dispatch_accounts_for_every_task_witness:
  "length (fst (collect_results (rev (fst (submit_all two_book_session [book_url_1, book_url_2]))) [] 0))
     + snd (collect_results (rev (fst (submit_all two_book_session [book_url_1, book_url_2]))) [] 0)
     = 2
   \<and> fst (collect_results (rev (fst (submit_all two_book_session [book_url_1, book_url_2]))) [] 0)
       = [book_record (document price_row_page) book_url_1]
   \<and> snd (collect_results (rev (fst (submit_all two_book_session [book_url_1, book_url_2]))) [] 0)
       = 1"
proof -
  let ?futures = "fst (submit_all two_book_session [book_url_1, book_url_2])"
  have h1: "map snd ?futures = [book_url_1, book_url_2]" by (rule submit_all_urls)
  have h2: "mset (rev ?futures) = mset ?futures" by simp
  have ne: "book_record (document price_row_page) book_url_1 \<noteq> []"
    by (rule book_record_not_empty)
  show ?thesis
    using dispatch_accounts_for_every_task [OF h1 h2] ne
    unfolding two_book_futures
    by (simp add: returned_record_def)
qed

section \<open>The persistence sink\<close>


text \<open>
  Claim C7, as the program has it. \<^verbatim>\<open>save_books_data\<close> returns \<^verbatim>\<open>None\<close> in every case and
  never raises on a fault of the file system: it catches the exception and prints it; when
  no call fails it prints where the records were saved. The caller is given no
  success-or-failure value.
\<close>

theorem save_books_data_returns_none:
  "fst (save_books_data dumps faults fs book_list filename) = PyNone
   \<and> snd (snd (save_books_data dumps faults fs book_list filename))
       = (case first_fault faults of
            Some exc \<Rightarrow> [SaveError exc]
          | None \<Rightarrow> [SavedTo (length book_list) (os_path_join ''artifacts'' filename)])"
  by (simp add: save_books_data_def os_makedirs_def open_w_def file_write_def first_fault_def
        Let_def split: option.splits prod.splits sum.splits)



lemma books_data_path: "os_path_join ''artifacts'' ''books_data.txt'' = ''artifacts/books_data.txt''"
  by (simp add: os_path_join_def)

text \<open>The claim as stated fails: a save that wrote the file and a save that was denied
  the directory return the same value, \<^verbatim>\<open>None\<close>; the outcome is only printed.\<close>

theorem save_reports_nothing_counterexample:
  "fst (save_books_data render_books no_faults empty_filesystem one_book ''books_data.txt'')
     = PyNone
   \<and> fst (save_books_data render_books permission_denied empty_filesystem one_book
            ''books_data.txt'') = PyNone
   \<and> files (fst (snd (save_books_data render_books no_faults empty_filesystem one_book
                        ''books_data.txt''))) ''artifacts/books_data.txt''
       = Some (render_books one_book)
   \<and> files (fst (snd (save_books_data render_books permission_denied empty_filesystem one_book
                        ''books_data.txt''))) ''artifacts/books_data.txt'' = None
   \<and> snd (snd (save_books_data render_books permission_denied empty_filesystem one_book
                 ''books_data.txt'')) = [SaveError PermissionError]"
  by (simp add: save_books_data_def os_makedirs_def open_w_def file_write_def Let_def
        no_faults_def permission_denied_def empty_filesystem_def books_data_path)


end
